theory Spec2Isabelle
  imports Complex_Main
begin

section \<open>The Markov decision process aggregate of go-rl\<close>

text \<open>
  A shallow embedding of package \<open>mdp\<close>: the values \<open>State\<close>, \<open>Action\<close>,
  \<open>Transition\<close>, the tables \<open>rewardsTable\<close>, \<open>transitionTableEntry\<close>,
  \<open>transitionTable\<close>, and the aggregate \<open>mdp\<close> with its operations. Where a file is
  present in several revisions, the embedding follows the latest one: the aggregate with
  \<open>SetStateObject\<close> and \<open>String\<close>, the rewards table with its \<open>stateMap\<close>, the
  state with its terminal flag.

  Conventions of the embedding.
  \<^item> \<open>State\<close>, \<open>Action\<close> and \<open>Transition\<close> are Go interfaces holding a pointer to an
    immutable struct. An interface value is an \<open>option\<close>: \<open>None\<close> is \<open>nil\<close>. A struct
    carries the address it was allocated at (\<open>s_addr\<close>, \<open>a_addr\<close>), because the maps
    \<open>map[State]\<dots>\<close> and \<open>map[Action]\<dots>\<close> compare keys by pointer; two structs at one
    address have the same fields, so equality of the records is equality of the pointers.
    A \<open>Transition\<close> is never a key and never compared, so it carries no address.
  \<^item> A Go map \<open>map[Action]Transition\<close> is a reference to a map object, or \<open>nil\<close>. The
    map objects live in an explicit store (\<open>mapHeap\<close>, from addresses to contents), so
    that two entries can share one map and a write through one is seen through the other.
    Reading a \<open>nil\<close> map finds nothing, deleting from it does nothing, writing to it
    panics.
  \<^item> Allocation is explicit: the constructors take the address, and the aggregate has
    the ghost fields \<open>nextAddr\<close>, the next unused address, and \<open>maps\<close>, the map objects
    it has made. Objects handed in by a caller were allocated before and lie below
    \<open>nextAddr\<close>.
  \<^item> A run-time panic (a method called on \<open>nil\<close>, a write to a \<open>nil\<close> map, an index out
    of range, \<open>make\<close> with a length out of range) is the error \<open>Panic\<close>; an
    \<open>errors.New\<close> is the constructor named after its message. Every operation that can
    fail returns \<open>error + 'a\<close>.
  \<^item> \<open>int\<close> is the 64-bit Go \<open>int\<close>; the one product of the code, \<open>index * 2\<close>, wraps
    (\<open>int64\<close>). \<open>make([]State, n)\<close> panics for a negative \<open>n\<close> and for an \<open>n\<close> above
    \<open>maxSliceLen\<close>, the limit of the 64-bit runtime for elements of 16 bytes; a length
    within the limit is allocated (running out of memory below the limit is a fatal error
    that depends on the machine, and is not modelled). \<open>float32\<close> values are only stored, returned and
    compared with \<open>0\<close> and \<open>1\<close>; they are reals here.
  \<^item> A Go map that the code ranges over is an association list in the order of the
    iteration (each key once); a map that is only read and written by key is a HOL map.
\<close>

subsection \<open>Errors\<close>

datatype panic = NilDereference | NilMapWrite | IndexOutOfRange | LenOutOfRange

datatype error =
    DiscountRateOutOfRange \<comment> \<open>"discount rate must be in (0, 1.0]"\<close>
  | IndexNegative \<comment> \<open>"index must be non-negative"\<close>
  | NameMissing \<comment> \<open>"name must be provided"\<close>
  | StateIndexNotFound int \<comment> \<open>"state at index i doesn't exist"\<close>
  | StateNameNotFound string \<comment> \<open>"state with name n doesn't exist"\<close>
  | StateNotFound string \<comment> \<open>"state s doesn't exist"\<close>
  | ActionExists string \<comment> \<open>"action with name a already exists", "action a already exists"\<close>
  | ActionNotFound string \<comment> \<open>"action with name a doesn't exist"\<close>
  | ActionNotInMDP string \<comment> \<open>"action with name a not in MDP"\<close>
  | Panic panic

definition andThen :: "error + 'a \<Rightarrow> ('a \<Rightarrow> error + 'b) \<Rightarrow> error + 'b" where
  "andThen r f = (case r of Inl e \<Rightarrow> Inl e | Inr x \<Rightarrow> f x)"

definition int64 :: "int \<Rightarrow> int" where
  "int64 x = (x + 2 ^ 63) mod 2 ^ 64 - 2 ^ 63"

text \<open>
  The longest \<open>[]State\<close> that \<open>make\<close> admits: the runtime refuses a slice of more than
  \<open>2^48\<close> bytes, and an interface value takes 16.
\<close>

definition maxSliceLen :: int where
  "maxSliceLen = 2 ^ 44"

subsection \<open>State, Action, Transition\<close>

type_synonym addr = nat

record state =
  s_addr :: addr
  s_name :: string
  s_index :: int
  s_terminal :: bool

definition NewState :: "addr \<Rightarrow> string \<Rightarrow> int \<Rightarrow> bool \<Rightarrow> state" where
  "NewState p n i t = \<lparr>s_addr = p, s_name = n, s_index = i, s_terminal = t\<rparr>"

text \<open>\<open>func (s *state) Equals(other State) bool { return s.index == other.Index() }\<close>\<close>

definition state_Equals :: "state \<Rightarrow> state option \<Rightarrow> error + bool" where
  "state_Equals s other =
     (case other of None \<Rightarrow> Inl (Panic NilDereference)
      | Some o' \<Rightarrow> Inr (s_index s = s_index o'))"

record action =
  a_addr :: addr
  a_name :: string

definition NewAction :: "addr \<Rightarrow> string \<Rightarrow> action" where
  "NewAction p n = \<lparr>a_addr = p, a_name = n\<rparr>"

record transition =
  probability :: real
  nextState :: "state option"

definition NewTransition :: "real \<Rightarrow> state option \<Rightarrow> transition" where
  "NewTransition p s = \<lparr>probability = p, nextState = s\<rparr>"

subsection \<open>RewardsTable\<close>

record rewardsTable =
  r_table :: "int \<rightharpoonup> real"
  r_stateMap :: "int \<rightharpoonup> state"

text \<open>\<open>return r.table[state.Index()]\<close>: a missing key reads as the zero value.\<close>

definition rewardsTable_Get :: "rewardsTable \<Rightarrow> state option \<Rightarrow> error + real" where
  "rewardsTable_Get r st =
     (case st of None \<Rightarrow> Inl (Panic NilDereference)
      | Some s \<Rightarrow> Inr (case r_table r (s_index s) of None \<Rightarrow> 0 | Some x \<Rightarrow> x))"

definition rewardsTable_Set :: "rewardsTable \<Rightarrow> state option \<Rightarrow> real \<Rightarrow> error + rewardsTable" where
  "rewardsTable_Set r st reward =
     (case st of None \<Rightarrow> Inl (Panic NilDereference)
      | Some s \<Rightarrow>
          Inr (r\<lparr>r_table := (r_table r)(s_index s \<mapsto> reward),
                 r_stateMap := (r_stateMap r)(s_index s \<mapsto> s)\<rparr>))"

definition rewardsTable_Remove :: "rewardsTable \<Rightarrow> state option \<Rightarrow> error + rewardsTable" where
  "rewardsTable_Remove r st =
     (case st of None \<Rightarrow> Inl (Panic NilDereference)
      | Some s \<Rightarrow>
          Inr (r\<lparr>r_table := (r_table r)(s_index s := None),
                 r_stateMap := (r_stateMap r)(s_index s := None)\<rparr>))"

text \<open>
  \<open>NewRewards(table *map[State]float32)\<close>: an empty table, then one entry for each pair
  of \<open>*table\<close> when the pointer is not \<open>nil\<close>.
\<close>

fun NewRewards_loop :: "rewardsTable \<Rightarrow> (state option \<times> real) list \<Rightarrow> error + rewardsTable" where
  "NewRewards_loop t [] = Inr t"
| "NewRewards_loop t ((st, reward) # rest) =
     (case rewardsTable_Set t st reward of
        Inl e \<Rightarrow> Inl e
      | Inr t' \<Rightarrow> NewRewards_loop t' rest)"

definition NewRewards :: "(state option \<times> real) list option \<Rightarrow> error + rewardsTable" where
  "NewRewards table =
     (let t = \<lparr>r_table = Map.empty, r_stateMap = Map.empty\<rparr>
      in case table of None \<Rightarrow> Inr t | Some ps \<Rightarrow> NewRewards_loop t ps)"

subsection \<open>TransitionTableEntry and TransitionTable\<close>

text \<open>
  \<open>transitionTableEntry\<close> is a struct with the one field \<open>entry\<close>, a map that is set
  by the constructor and never assigned again: the field is the address of a map object,
  or \<open>None\<close> for the \<open>nil\<close> map. The contents of the map objects are in the store. A
  key of a map may be the \<open>nil\<close> Action. A \<open>TransitionTableEntry\<close> interface value
  is an \<open>option\<close> of the struct.
\<close>

type_synonym actionMap = "action option \<rightharpoonup> transition"

type_synonym mapHeap = "addr \<Rightarrow> actionMap"

record transitionTableEntry =
  entry :: "addr option"

definition transitionTableEntry_Get ::
  "mapHeap \<Rightarrow> transitionTableEntry \<Rightarrow> action option \<Rightarrow> transition option" where
  "transitionTableEntry_Get h t a = (case entry t of None \<Rightarrow> None | Some r \<Rightarrow> h r a)"

text \<open>\<open>t.entry[action] = NewTransition(probability, nextState)\<close>: a write to a \<open>nil\<close> map panics.\<close>

definition transitionTableEntry_Set ::
  "mapHeap \<Rightarrow> transitionTableEntry \<Rightarrow> action option \<Rightarrow> real \<Rightarrow> state option \<Rightarrow> error + mapHeap" where
  "transitionTableEntry_Set h t a p nxt =
     (case entry t of
        None \<Rightarrow> Inl (Panic NilMapWrite)
      | Some r \<Rightarrow> Inr (h(r := (h r)(a \<mapsto> NewTransition p nxt))))"

definition transitionTableEntry_Remove ::
  "mapHeap \<Rightarrow> transitionTableEntry \<Rightarrow> action option \<Rightarrow> mapHeap" where
  "transitionTableEntry_Remove h t a =
     (case entry t of None \<Rightarrow> h | Some r \<Rightarrow> h(r := (h r)(a := None)))"

text \<open>
  \<open>NewTransitionTableEntry(entry *map[Action]Transition)\<close>. The argument is \<open>None\<close> for
  the \<open>nil\<close> pointer, and then the entry gets a new empty map, made at the address
  \<open>fresh\<close>; otherwise it is \<open>Some\<close> of the map pointed to, which the entry keeps as it
  is, \<open>nil\<close> or shared.
\<close>

definition NewTransitionTableEntry ::
  "mapHeap \<Rightarrow> addr \<Rightarrow> addr option option \<Rightarrow> mapHeap \<times> transitionTableEntry" where
  "NewTransitionTableEntry h fresh ptr =
     (case ptr of
        None \<Rightarrow> (h(fresh := Map.empty), \<lparr>entry = Some fresh\<rparr>)
      | Some mp \<Rightarrow> (h, \<lparr>entry = mp\<rparr>))"

text \<open>
  \<open>transitionTable\<close> is a struct with the one field \<open>table\<close>, a map made by the
  constructor; the model is its contents. A key may be the \<open>nil\<close> State and a value the
  \<open>nil\<close> entry. \<open>Get\<close> returns \<open>nil\<close> (here \<open>None\<close>) for a state without an entry.
\<close>

type_synonym transitionTable = "state option \<rightharpoonup> transitionTableEntry option"

definition transitionTable_Get :: "transitionTable \<Rightarrow> state option \<Rightarrow> transitionTableEntry option" where
  "transitionTable_Get t st = (case t st of None \<Rightarrow> None | Some e \<Rightarrow> e)"

definition transitionTable_Set ::
  "transitionTable \<Rightarrow> state option \<Rightarrow> transitionTableEntry option \<Rightarrow> transitionTable" where
  "transitionTable_Set t st e = t(st \<mapsto> e)"

text \<open>
  \<open>t.table[state].Set(action, probability, nextState)\<close>: the map read gives \<open>nil\<close> for a
  missing key, and the call of \<open>Set\<close> on it panics. The table itself is not written.
\<close>

definition transitionTable_Update ::
  "mapHeap \<Rightarrow> transitionTable \<Rightarrow> state option \<Rightarrow> action option \<Rightarrow> real \<Rightarrow> state option
     \<Rightarrow> error + mapHeap" where
  "transitionTable_Update h t st a p nxt =
     (case (case t st of None \<Rightarrow> None | Some e \<Rightarrow> e) of
        None \<Rightarrow> Inl (Panic NilDereference)
      | Some e \<Rightarrow> transitionTableEntry_Set h e a p nxt)"

definition transitionTable_Remove :: "transitionTable \<Rightarrow> state option \<Rightarrow> transitionTable" where
  "transitionTable_Remove t st = t(st := None)"

text \<open>
  \<open>NewTransitionTable(table *map[State]map[Action]Transition)\<close>: an empty table, then for
  each pair of \<open>*table\<close> an entry made by \<open>NewTransitionTableEntry(&entry)\<close>, which keeps
  the inner map as it is.
\<close>

fun NewTransitionTable_loop ::
  "mapHeap \<Rightarrow> addr \<Rightarrow> transitionTable \<Rightarrow> (state option \<times> addr option) list \<Rightarrow> transitionTable" where
  "NewTransitionTable_loop h fresh t [] = t"
| "NewTransitionTable_loop h fresh t ((st, mp) # rest) =
     (case NewTransitionTableEntry h fresh (Some mp) of
        (h', e) \<Rightarrow> NewTransitionTable_loop h' fresh (transitionTable_Set t st (Some e)) rest)"

definition NewTransitionTable ::
  "mapHeap \<Rightarrow> addr \<Rightarrow> (state option \<times> addr option) list option \<Rightarrow> transitionTable" where
  "NewTransitionTable h fresh table =
     (case table of None \<Rightarrow> Map.empty | Some ps \<Rightarrow> NewTransitionTable_loop h fresh Map.empty ps)"

subsection \<open>The aggregate\<close>

definition defaultStatesCapacity :: int where
  "defaultStatesCapacity = 128"

record mdp =
  initialState :: "state option"
  states :: "state option list"
  statesCapacity :: int
  statesSize :: int
  actions :: "string \<rightharpoonup> action"
  rewards :: rewardsTable
  transitions :: transitionTable
  discountRate :: real
  stateMap :: "string \<rightharpoonup> state"
  stateIndexMap :: "int \<rightharpoonup> state"
  nextAddr :: addr
  maps :: mapHeap

definition getStateByName :: "mdp \<Rightarrow> string \<Rightarrow> state option" where
  "getStateByName m n = stateMap m n"

definition getStateByIndex :: "mdp \<Rightarrow> int \<Rightarrow> state option" where
  "getStateByIndex m i = stateIndexMap m i"

definition getAction :: "mdp \<Rightarrow> string \<Rightarrow> action option" where
  "getAction m n = actions m n"

text \<open>
  \<open>appendStateToList\<close>. When the index is at or beyond \<open>statesCapacity\<close>, the capacity
  becomes \<open>index * 2\<close>, a new array of that length is made (\<open>make\<close> panics on a length
  that is negative or above \<open>maxSliceLen\<close>) and the loop \<open>newStates[i] = state\<close> copies
  every element of the old array (it panics when the old array is the longer one). Then
  \<open>m.states[index] = state\<close>, which panics at or beyond the length of the array.
\<close>

definition appendStateToList :: "mdp \<Rightarrow> state \<Rightarrow> error + mdp" where
  "appendStateToList m st =
     (let index = s_index st in
      if index < 0 then Inl IndexNegative
      else
        andThen
          (if index \<ge> statesCapacity m then
             (let c = int64 (index * 2) in
              if c < 0 \<or> maxSliceLen < c then Inl (Panic LenOutOfRange)
              else if length (states m) > nat c then Inl (Panic IndexOutOfRange)
              else Inr (m\<lparr>statesCapacity := c,
                           states := states m @ replicate (nat c - length (states m)) None\<rparr>))
           else Inr m)
          (\<lambda>m1. if nat index < length (states m1)
                then Inr (m1\<lparr>states := (states m1)[nat index := Some st]\<rparr>)
                else Inl (Panic IndexOutOfRange)))"

definition R :: "mdp \<Rightarrow> string \<Rightarrow> error + real" where
  "R m n = rewardsTable_Get (rewards m) (getStateByName m n)"

definition RByIndex :: "mdp \<Rightarrow> int \<Rightarrow> error + real" where
  "RByIndex m i = rewardsTable_Get (rewards m) (getStateByIndex m i)"

text \<open>
  \<open>m.transitions.Get(state).Get(action)\<close>: the second \<open>Get\<close> is called on \<open>nil\<close> when the
  state has no entry. The result \<open>None\<close> is the \<open>nil\<close> Transition.
\<close>

definition T :: "mdp \<Rightarrow> string \<Rightarrow> string \<Rightarrow> error + transition option" where
  "T m n a =
     (case transitionTable_Get (transitions m) (getStateByName m n) of
        None \<Rightarrow> Inl (Panic NilDereference)
      | Some e \<Rightarrow> Inr (transitionTableEntry_Get (maps m) e (getAction m a)))"

definition TByIndex :: "mdp \<Rightarrow> int \<Rightarrow> string \<Rightarrow> error + transition option" where
  "TByIndex m i a =
     (case transitionTable_Get (transitions m) (getStateByIndex m i) of
        None \<Rightarrow> Inl (Panic NilDereference)
      | Some e \<Rightarrow> Inr (transitionTableEntry_Get (maps m) e (getAction m a)))"

definition AddAction :: "mdp \<Rightarrow> string \<Rightarrow> error + mdp" where
  "AddAction m n =
     (if getAction m n \<noteq> None then Inl (ActionExists n)
      else Inr (m\<lparr>actions := (actions m)(n \<mapsto> NewAction (nextAddr m) n),
                   nextAddr := Suc (nextAddr m)\<rparr>))"

definition AddActionObject :: "mdp \<Rightarrow> action option \<Rightarrow> error + mdp" where
  "AddActionObject m act =
     (case act of None \<Rightarrow> Inl (Panic NilDereference)
      | Some a \<Rightarrow>
          if getAction m (a_name a) \<noteq> None then Inl (ActionExists (a_name a))
          else Inr (m\<lparr>actions := (actions m)(a_name a \<mapsto> a)\<rparr>))"

text \<open>
  The first half of \<open>SetState\<close> and \<open>SetStateObject\<close>, which is the same text in both: the
  reward and the entry of the state registered at the index are removed, the state is
  written to the array and to both maps, and its reward is set.
\<close>

definition registerState :: "mdp \<Rightarrow> state \<Rightarrow> real \<Rightarrow> error + mdp" where
  "registerState m s reward =
     andThen
       (case getStateByIndex m (s_index s) of
          None \<Rightarrow> Inr m
        | Some sOld \<Rightarrow>
            andThen (rewardsTable_Remove (rewards m) (Some sOld))
              (\<lambda>rw. Inr (m\<lparr>rewards := rw,
                            transitions := transitionTable_Remove (transitions m) (Some sOld)\<rparr>)))
       (\<lambda>m1. andThen (appendStateToList m1 s)
         (\<lambda>m2. let m3 = m2\<lparr>stateMap := (stateMap m2)(s_name s \<mapsto> s),
                             stateIndexMap := (stateIndexMap m2)(s_index s \<mapsto> s)\<rparr>
               in andThen (rewardsTable_Set (rewards m3) (Some s) reward)
                    (\<lambda>rw. Inr (m3\<lparr>rewards := rw\<rparr>))))"

text \<open>
  \<open>entry := NewTransitionTableEntry(nil)\<close> in the aggregate: the new map is made at the
  next unused address.
\<close>

definition newEntry :: "mdp \<Rightarrow> mdp \<times> transitionTableEntry" where
  "newEntry m =
     (case NewTransitionTableEntry (maps m) (nextAddr m) None of
        (h, e) \<Rightarrow> (m\<lparr>maps := h, nextAddr := Suc (nextAddr m)\<rparr>, e))"

text \<open>
  The loop of \<open>SetState\<close> over \<open>transitions map[string]Transition\<close>: an action name that
  is not registered is registered with a new Action; a \<open>nil\<close> Transition panics at
  \<open>.Probability()\<close>; \<open>entry.Set\<close> writes to the map of the entry.
\<close>

fun SetState_loop ::
  "mdp \<Rightarrow> transitionTableEntry \<Rightarrow> (string \<times> transition option) list \<Rightarrow> error + mdp" where
  "SetState_loop m e [] = Inr m"
| "SetState_loop m e ((n, t) # rest) =
     (case (case getAction m n of
              Some a \<Rightarrow> Inr (m, a)
            | None \<Rightarrow>
                (let a = NewAction (nextAddr m) n
                 in case AddActionObject (m\<lparr>nextAddr := Suc (nextAddr m)\<rparr>) (Some a) of
                      Inl err \<Rightarrow> Inl err
                    | Inr m' \<Rightarrow> Inr (m', a))) of
        Inl err \<Rightarrow> Inl err
      | Inr (m', a) \<Rightarrow>
          (case t of
             None \<Rightarrow> Inl (Panic NilDereference)
           | Some tr \<Rightarrow>
               (case transitionTableEntry_Set (maps m') e (Some a) (probability tr) (nextState tr) of
                  Inl err \<Rightarrow> Inl err
                | Inr h \<Rightarrow> SetState_loop (m'\<lparr>maps := h\<rparr>) e rest)))"

text \<open>The end of \<open>SetState\<close> and \<open>SetStateObject\<close>: the entry is set, and index 0 is the initial state.\<close>

definition finishState :: "mdp \<Rightarrow> state \<Rightarrow> transitionTableEntry \<Rightarrow> mdp" where
  "finishState m s e =
     (let m1 = m\<lparr>transitions := transitionTable_Set (transitions m) (Some s) (Some e)\<rparr>
      in if s_index s = 0 then m1\<lparr>initialState := Some s\<rparr> else m1)"

definition SetState ::
  "mdp \<Rightarrow> string \<Rightarrow> int \<Rightarrow> bool \<Rightarrow> real \<Rightarrow> (string \<times> transition option) list \<Rightarrow> error + mdp" where
  "SetState m n index terminal reward ts =
     (if index < 0 then Inl IndexNegative
      else if n = [] then Inl NameMissing
      else
        (let s = NewState (nextAddr m) n index terminal
         in andThen (registerState (m\<lparr>nextAddr := Suc (nextAddr m)\<rparr>) s reward)
              (\<lambda>m1. case newEntry m1 of
                       (m2, e) \<Rightarrow>
                         andThen (SetState_loop m2 e ts) (\<lambda>m3. Inr (finishState m3 s e)))))"

text \<open>
  The loop of \<open>SetStateObject\<close> over \<open>transitions map[Action]Transition\<close>: the key itself
  is the key of the entry, whether or not it is the Action registered under its name.
\<close>

fun SetStateObject_loop ::
  "mdp \<Rightarrow> transitionTableEntry \<Rightarrow> (action option \<times> transition option) list \<Rightarrow> error + mdp" where
  "SetStateObject_loop m e [] = Inr m"
| "SetStateObject_loop m e ((act, t) # rest) =
     (case act of
        None \<Rightarrow> Inl (Panic NilDereference)
      | Some a \<Rightarrow>
          (case (if getAction m (a_name a) = None then AddActionObject m act else Inr m) of
             Inl err \<Rightarrow> Inl err
           | Inr m' \<Rightarrow>
               (case t of
                  None \<Rightarrow> Inl (Panic NilDereference)
                | Some tr \<Rightarrow>
                    (case transitionTableEntry_Set (maps m') e act (probability tr) (nextState tr) of
                       Inl err \<Rightarrow> Inl err
                     | Inr h \<Rightarrow> SetStateObject_loop (m'\<lparr>maps := h\<rparr>) e rest))))"

definition SetStateObject ::
  "mdp \<Rightarrow> state option \<Rightarrow> real \<Rightarrow> (action option \<times> transition option) list \<Rightarrow> error + mdp" where
  "SetStateObject m st reward ts =
     (case st of
        None \<Rightarrow> Inl (Panic NilDereference)
      | Some s \<Rightarrow>
          if s_index s < 0 then Inl IndexNegative
          else if s_name s = [] then Inl NameMissing
          else
            andThen (registerState m s reward)
              (\<lambda>m1. case newEntry m1 of
                       (m2, e) \<Rightarrow>
                         andThen (SetStateObject_loop m2 e ts) (\<lambda>m3. Inr (finishState m3 s e))))"

definition SetInitialState ::
  "mdp \<Rightarrow> string \<Rightarrow> real \<Rightarrow> (string \<times> transition option) list \<Rightarrow> error + mdp" where
  "SetInitialState m n reward ts = SetState m n 0 False reward ts"

definition SetInitialStateObject ::
  "mdp \<Rightarrow> state option \<Rightarrow> real \<Rightarrow> (action option \<times> transition option) list \<Rightarrow> error + mdp" where
  "SetInitialStateObject m st reward ts = SetStateObject m st reward ts"

text \<open>
  The scan of \<open>AddState\<close> and \<open>AddStateObject\<close>: \<open>index\<close> counts the elements before the
  first \<open>nil\<close> one, and is the length of the array when there is none.
\<close>

fun firstEmptyIndex :: "state option list \<Rightarrow> int" where
  "firstEmptyIndex [] = 0"
| "firstEmptyIndex (None # rest) = 0"
| "firstEmptyIndex (Some s # rest) = firstEmptyIndex rest + 1"

definition AddState ::
  "mdp \<Rightarrow> string \<Rightarrow> bool \<Rightarrow> real \<Rightarrow> (string \<times> transition option) list \<Rightarrow> error + mdp" where
  "AddState m n terminal reward ts =
     (let index = firstEmptyIndex (states m)
      in SetState m n index terminal reward ts)"

text \<open>\<open>AddStateObject\<close> runs the same scan and then calls \<open>m.SetStateObject(state, reward, transitions)\<close>.\<close>

definition AddStateObject ::
  "mdp \<Rightarrow> state option \<Rightarrow> real \<Rightarrow> (action option \<times> transition option) list \<Rightarrow> error + mdp" where
  "AddStateObject m st reward ts =
     (let index = firstEmptyIndex (states m)
      in SetStateObject m st reward ts)"

definition RemoveStateByIndex :: "mdp \<Rightarrow> int \<Rightarrow> error + mdp" where
  "RemoveStateByIndex m index =
     (case getStateByIndex m index of
        None \<Rightarrow> Inl (StateIndexNotFound index)
      | Some sOld \<Rightarrow>
          if index < 0 \<or> nat index \<ge> length (states m) then Inl (Panic IndexOutOfRange)
          else
            andThen (rewardsTable_Remove (rewards m) (Some sOld))
              (\<lambda>rw. Inr (m\<lparr>states := (states m)[nat index := None],
                            rewards := rw,
                            transitions := transitionTable_Remove (transitions m) (Some sOld)\<rparr>)))"

definition RemoveStateByName :: "mdp \<Rightarrow> string \<Rightarrow> error + mdp" where
  "RemoveStateByName m n =
     (case getStateByName m n of
        None \<Rightarrow> Inl (StateNameNotFound n)
      | Some s \<Rightarrow> RemoveStateByIndex m (s_index s))"

definition RemoveStateByObject :: "mdp \<Rightarrow> state option \<Rightarrow> error + mdp" where
  "RemoveStateByObject m st =
     (case st of
        None \<Rightarrow> Inl (Panic NilDereference)
      | Some s0 \<Rightarrow>
          (case getStateByName m (s_name s0) of
             None \<Rightarrow> Inl (StateNotFound (s_name s0))
           | Some s \<Rightarrow> RemoveStateByIndex m (s_index s)))"

text \<open>
  The loop of \<open>RemoveAction\<close> ranges over every element of \<open>m.states\<close>, the \<open>nil\<close> ones
  too: \<open>m.transitions.Get(state).Remove(a)\<close> is a call on \<open>nil\<close> when the table has no
  entry for the element, and a delete from the map of the entry otherwise.
\<close>

fun RemoveAction_loop ::
  "mapHeap \<Rightarrow> transitionTable \<Rightarrow> action option \<Rightarrow> state option list \<Rightarrow> error + mapHeap" where
  "RemoveAction_loop h t a [] = Inr h"
| "RemoveAction_loop h t a (st # rest) =
     (case transitionTable_Get t st of
        None \<Rightarrow> Inl (Panic NilDereference)
      | Some e \<Rightarrow> RemoveAction_loop (transitionTableEntry_Remove h e a) t a rest)"

definition RemoveAction :: "mdp \<Rightarrow> string \<Rightarrow> error + mdp" where
  "RemoveAction m n =
     (case getAction m n of
        None \<Rightarrow> Inl (ActionNotFound n)
      | Some a \<Rightarrow>
          (let m1 = m\<lparr>actions := (actions m)(n := None)\<rparr>
           in andThen (RemoveAction_loop (maps m1) (transitions m1) (Some a) (states m1))
                (\<lambda>h. Inr (m1\<lparr>maps := h\<rparr>))))"

definition RemoveActionObject :: "mdp \<Rightarrow> action option \<Rightarrow> error + mdp" where
  "RemoveActionObject m act =
     (case act of None \<Rightarrow> Inl (Panic NilDereference) | Some a \<Rightarrow> RemoveAction m (a_name a))"

definition SetDiscountRate :: "mdp \<Rightarrow> real \<Rightarrow> error + mdp" where
  "SetDiscountRate m g =
     (if g \<le> 0 \<or> g > 1 then Inl DiscountRateOutOfRange else Inr (m\<lparr>discountRate := g\<rparr>))"

definition SetTransition :: "mdp \<Rightarrow> string \<Rightarrow> string \<Rightarrow> string \<Rightarrow> real \<Rightarrow> error + mdp" where
  "SetTransition m startState endState a p =
     andThen
       (transitionTable_Update (maps m) (transitions m) (getStateByName m startState)
          (getAction m a) p (getStateByName m endState))
       (\<lambda>h. Inr (m\<lparr>maps := h\<rparr>))"

definition RemoveTransitionByAction :: "mdp \<Rightarrow> string \<Rightarrow> string \<Rightarrow> error + mdp" where
  "RemoveTransitionByAction m startState a =
     (case transitionTable_Get (transitions m) (getStateByName m startState) of
        None \<Rightarrow> Inl (Panic NilDereference)
      | Some e \<Rightarrow> Inr (m\<lparr>maps := transitionTableEntry_Remove (maps m) e (getAction m a)\<rparr>))"

subsection \<open>Construction\<close>

text \<open>The loop \<open>for _, action := range actions\<close> of \<open>NewMDP\<close>.\<close>

fun NewMDP_actions :: "mdp \<Rightarrow> string list \<Rightarrow> mdp" where
  "NewMDP_actions m [] = m"
| "NewMDP_actions m (n # rest) =
     NewMDP_actions (m\<lparr>actions := (actions m)(n \<mapsto> NewAction (nextAddr m) n),
                        nextAddr := Suc (nextAddr m)\<rparr>) rest"

text \<open>
  The inner loop of \<open>NewMDP\<close> over \<open>transitions[state]\<close>. Its test reads \<open>terminalMap\<close>
  at the state (\<open>isTerminal\<close> below); the key of the entry is \<open>m.actions[action]\<close>, which
  is \<open>nil\<close> for a name that is not registered.
\<close>

fun NewMDP_entry ::
  "mdp \<Rightarrow> bool \<Rightarrow> transitionTableEntry \<Rightarrow> (string \<times> transition option) list \<Rightarrow> error + mdp" where
  "NewMDP_entry m isTerminal e [] = Inr m"
| "NewMDP_entry m isTerminal e ((n, t) # rest) =
     (if \<not> isTerminal then Inl (ActionNotInMDP n)
      else
        (case t of
           None \<Rightarrow> Inl (Panic NilDereference)
         | Some tr \<Rightarrow>
             (case transitionTableEntry_Set (maps m) e (actions m n) (probability tr) (nextState tr) of
                Inl err \<Rightarrow> Inl err
              | Inr h \<Rightarrow> NewMDP_entry (m\<lparr>maps := h\<rparr>) isTerminal e rest)))"

text \<open>
  The loop of \<open>NewMDP\<close> over the state names, with its counter \<open>i\<close>. \<open>append\<close> writes
  behind the last element of \<open>m.states\<close>.
\<close>

fun NewMDP_states ::
  "mdp \<Rightarrow> string \<Rightarrow> string list \<Rightarrow> (string \<rightharpoonup> real) \<Rightarrow> (string \<rightharpoonup> (string \<times> transition option) list)
     \<Rightarrow> int \<Rightarrow> string list \<Rightarrow> error + mdp" where
  "NewMDP_states m initialName terminals rewardsByName transitionsByName i [] = Inr m"
| "NewMDP_states m initialName terminals rewardsByName transitionsByName i (n # rest) =
     (let isTerminal = (n \<in> set terminals);
          s = NewState (nextAddr m) n i isTerminal;
          m0 = m\<lparr>nextAddr := Suc (nextAddr m)\<rparr>
      in if initialName \<noteq> n then
           (let m1 = m0\<lparr>states := states m0 @ [Some s],
                        stateMap := (stateMap m0)(n \<mapsto> s),
                        stateIndexMap := (stateIndexMap m0)(i \<mapsto> s)\<rparr>
            in case rewardsTable_Set (rewards m1) (Some s)
                      (case rewardsByName n of None \<Rightarrow> 0 | Some r \<Rightarrow> r) of
                 Inl err \<Rightarrow> Inl err
               | Inr rw \<Rightarrow>
                   (case newEntry (m1\<lparr>rewards := rw\<rparr>) of
                      (m2, e) \<Rightarrow>
                        (case NewMDP_entry m2 (n \<in> set terminals) e
                                (case transitionsByName n of None \<Rightarrow> [] | Some ts \<Rightarrow> ts) of
                           Inl err \<Rightarrow> Inl err
                         | Inr m3 \<Rightarrow>
                             NewMDP_states
                               (m3\<lparr>transitions :=
                                     transitionTable_Set (transitions m3) (Some s) (Some e)\<rparr>)
                               initialName terminals rewardsByName transitionsByName (i + 1) rest)))
         else NewMDP_states m0 initialName terminals rewardsByName transitionsByName i rest)"

text \<open>
  \<open>NewMDP\<close>. The aggregate has made no map yet, and its tables are the ones that
  \<open>NewRewards(nil)\<close> and \<open>NewTransitionTable(nil)\<close> return.
\<close>

definition NewMDP ::
  "addr \<Rightarrow> string \<Rightarrow> string list \<Rightarrow> string list \<Rightarrow> string list \<Rightarrow> (string \<rightharpoonup> real)
     \<Rightarrow> (string \<rightharpoonup> (string \<times> transition option) list) \<Rightarrow> real \<Rightarrow> error + mdp" where
  "NewMDP heap initialName stateNames terminals actionNames rewardsByName transitionsByName gamma =
     (if gamma \<le> 0 \<or> gamma > 1 then Inl DiscountRateOutOfRange
      else
        andThen (NewRewards None)
          (\<lambda>rw.
            let m = \<lparr>initialState = None,
                     states = replicate (nat defaultStatesCapacity) None,
                     statesCapacity = defaultStatesCapacity,
                     statesSize = 0,
                     actions = Map.empty,
                     rewards = rw,
                     transitions = NewTransitionTable (\<lambda>r. Map.empty) heap None,
                     discountRate = 0,
                     stateMap = Map.empty,
                     stateIndexMap = Map.empty,
                     nextAddr = heap,
                     maps = (\<lambda>r. Map.empty)\<rparr>;
                m1 = (if initialName \<noteq> [] then
                        (let s0 = NewState (nextAddr m) initialName 0 False
                         in m\<lparr>initialState := Some s0,
                              states := states m @ [Some s0],
                              stateMap := (stateMap m)(initialName \<mapsto> s0),
                              stateIndexMap := (stateIndexMap m)(0 \<mapsto> s0),
                              nextAddr := Suc (nextAddr m)\<rparr>)
                      else m\<lparr>initialState := None\<rparr>);
                m2 = NewMDP_actions m1 actionNames
            in andThen
                 (NewMDP_states m2 initialName terminals rewardsByName transitionsByName 1 stateNames)
                 (\<lambda>m3. Inr (m3\<lparr>discountRate := gamma\<rparr>))))"

definition NewDefaultMDP :: "addr \<Rightarrow> error + mdp" where
  "NewDefaultMDP heap = NewMDP heap [] [] [] [] Map.empty Map.empty 1"

subsection \<open>Predicates of the proofs\<close>

text \<open>
  Two aggregates that differ in the action registry, the allocator and the contents of
  the map objects at most.
\<close>

definition sameButActions :: "mdp \<Rightarrow> mdp \<Rightarrow> bool" where
  "sameButActions m m' =
     (initialState m' = initialState m \<and> states m' = states m \<and>
      statesCapacity m' = statesCapacity m \<and> statesSize m' = statesSize m \<and>
      rewards m' = rewards m \<and> transitions m' = transitions m \<and>
      discountRate m' = discountRate m \<and> stateMap m' = stateMap m \<and>
      stateIndexMap m' = stateIndexMap m)"

text \<open>Every state in the index map is registered under its own index.\<close>

definition indexKeyed :: "mdp \<Rightarrow> bool" where
  "indexKeyed m = (\<forall>i s. stateIndexMap m i = Some s \<longrightarrow> s_index s = i)"

section \<open>Basic facts\<close>

lemma andThen_simps [simp]:
  "andThen (Inl e) f = Inl e"
  "andThen (Inr x) f = f x"
  by (simp_all add: andThen_def)

lemma andThen_eq_Inr: "andThen r f = Inr y \<longleftrightarrow> (\<exists>x. r = Inr x \<and> f x = Inr y)"
  by (cases r) simp_all

lemma int64_id: "0 \<le> x \<Longrightarrow> x < 2 ^ 63 \<Longrightarrow> int64 x = x"
  by (simp add: int64_def)

lemma NewDefaultMDP_eq:
  "NewDefaultMDP h =
     Inr \<lparr>initialState = None, states = replicate 128 None, statesCapacity = 128,
          statesSize = 0, actions = Map.empty,
          rewards = \<lparr>r_table = Map.empty, r_stateMap = Map.empty\<rparr>,
          transitions = Map.empty, discountRate = 1, stateMap = Map.empty,
          stateIndexMap = Map.empty, nextAddr = h, maps = (\<lambda>r. Map.empty)\<rparr>"
  by (simp add: NewDefaultMDP_def NewMDP_def NewRewards_def NewTransitionTable_def
      defaultStatesCapacity_def)

text \<open>The definitions that a call on concrete arguments unfolds.\<close>

lemmas NewMDP_unfold =
  NewMDP_def NewRewards_def NewTransitionTable_def defaultStatesCapacity_def NewState_def
  NewAction_def newEntry_def NewTransitionTableEntry_def transitionTableEntry_Set_def
  transitionTable_Set_def Let_def

lemmas SetState_unfold =
  SetState_def registerState_def getStateByIndex_def appendStateToList_def NewState_def
  rewardsTable_Set_def rewardsTable_Remove_def transitionTable_Remove_def finishState_def
  newEntry_def NewTransitionTableEntry_def transitionTable_Set_def transitionTableEntry_Set_def
  AddActionObject_def getAction_def NewAction_def NewTransition_def int64_def maxSliceLen_def
  Let_def

lemmas SetStateObject_unfold =
  SetStateObject_def registerState_def getStateByIndex_def appendStateToList_def NewState_def
  rewardsTable_Set_def rewardsTable_Remove_def transitionTable_Remove_def finishState_def
  newEntry_def NewTransitionTableEntry_def transitionTable_Set_def transitionTableEntry_Set_def
  AddActionObject_def getAction_def NewAction_def NewTransition_def int64_def maxSliceLen_def
  Let_def

lemmas Remove_unfold =
  RemoveStateByIndex_def getStateByIndex_def rewardsTable_Remove_def transitionTable_Remove_def

subsection \<open>The loops of SetState and SetStateObject change the registry and the maps only\<close>

lemma sameButActions_refl: "sameButActions m m"
  by (simp add: sameButActions_def)

lemma sameButActions_trans: "sameButActions m m1 \<Longrightarrow> sameButActions m1 m2 \<Longrightarrow> sameButActions m m2"
  by (simp add: sameButActions_def)

lemma newEntry_eq:
  "newEntry m = (m\<lparr>maps := (maps m)(nextAddr m := Map.empty), nextAddr := Suc (nextAddr m)\<rparr>,
                 \<lparr>entry = Some (nextAddr m)\<rparr>)"
  by (simp add: newEntry_def NewTransitionTableEntry_def)

lemma SetState_loop_Cons:
  assumes "SetState_loop m e ((n, t) # ts) = Inr r"
  shows "\<exists>m1 a tr h. sameButActions m m1 \<and> t = Some tr \<and>
           transitionTableEntry_Set (maps m) e (Some a) (probability tr) (nextState tr) = Inr h \<and>
           maps m1 = h \<and> SetState_loop m1 e ts = Inr r"
proof -
  from assms obtain tr where t: "t = Some tr"
    by (cases t) (auto split: option.splits sum.splits simp add: Let_def)
  show ?thesis
  proof (cases "getAction m n")
    case None
    let ?a = "NewAction (nextAddr m) n"
    let ?m1 = "m\<lparr>nextAddr := Suc (nextAddr m), actions := (actions m)(n \<mapsto> ?a)\<rparr>"
    from assms None t obtain h where
      "transitionTableEntry_Set (maps m) e (Some ?a) (probability tr) (nextState tr) = Inr h"
      "SetState_loop (?m1\<lparr>maps := h\<rparr>) e ts = Inr r"
      by (auto simp add: AddActionObject_def Let_def NewAction_def getAction_def split: sum.splits)
    moreover have "sameButActions m (?m1\<lparr>maps := h\<rparr>)" by (simp add: sameButActions_def)
    moreover have "maps (?m1\<lparr>maps := h\<rparr>) = h" by simp
    ultimately show ?thesis using t by blast
  next
    case (Some a)
    from assms Some t obtain h where
      "transitionTableEntry_Set (maps m) e (Some a) (probability tr) (nextState tr) = Inr h"
      "SetState_loop (m\<lparr>maps := h\<rparr>) e ts = Inr r"
      by (auto split: sum.splits)
    moreover have "sameButActions m (m\<lparr>maps := h\<rparr>)" by (simp add: sameButActions_def)
    moreover have "maps (m\<lparr>maps := h\<rparr>) = h" by simp
    ultimately show ?thesis using t by blast
  qed
qed

lemma SetState_loop_frame:
  "SetState_loop m e ts = Inr m' \<Longrightarrow> sameButActions m m'"
proof (induction ts arbitrary: m)
  case Nil
  then show ?case by (simp add: sameButActions_def)
next
  case (Cons x ts)
  obtain n t where x: "x = (n, t)" by (cases x)
  from SetState_loop_Cons [OF Cons.prems [unfolded x]] obtain m1 where
    m1: "sameButActions m m1" and rest: "SetState_loop m1 e ts = Inr m'"
    by blast
  from Cons.IH [OF rest] m1 show ?case
    by (rule sameButActions_trans [rotated])
qed

text \<open>The loop writes to the map of its entry and to no other.\<close>

lemma SetState_loop_maps:
  "SetState_loop m e ts = Inr m' \<Longrightarrow> entry e = Some x \<Longrightarrow> r \<noteq> x \<Longrightarrow> maps m' r = maps m r"
proof (induction ts arbitrary: m)
  case Nil
  then show ?case by simp
next
  case (Cons y ts)
  obtain n t where y: "y = (n, t)" by (cases y)
  from SetState_loop_Cons [OF Cons.prems(1) [unfolded y]] obtain m1 a tr h where
    "t = Some tr" and
    s: "transitionTableEntry_Set (maps m) e (Some a) (probability tr) (nextState tr) = Inr h"
    and h: "maps m1 = h" and rest: "SetState_loop m1 e ts = Inr m'"
    by blast
  from s Cons.prems(2,3) have "h r = maps m r"
    by (auto simp add: transitionTableEntry_Set_def)
  with Cons.IH [OF rest Cons.prems(2,3)] h show ?case by simp
qed

lemma SetState_loop_succeeds:
  "entry e \<noteq> None \<Longrightarrow> \<forall>x \<in> set ts. snd x \<noteq> None \<Longrightarrow> \<exists>m'. SetState_loop m e ts = Inr m'"
proof (induction ts arbitrary: m)
  case Nil
  then show ?case by simp
next
  case (Cons x ts)
  obtain n t where x: "x = (n, t)" by (cases x)
  with Cons.prems obtain tr where t: "t = Some tr" by auto
  from Cons.prems have rest: "\<forall>x \<in> set ts. snd x \<noteq> None" by simp
  from Cons.prems(1) obtain r where r: "entry e = Some r" by auto
  show ?case
    using Cons.IH [OF Cons.prems(1) rest] x t r
    by (simp add: AddActionObject_def getAction_def Let_def NewAction_def
        transitionTableEntry_Set_def split: option.splits)
qed

lemma SetStateObject_loop_frame:
  "SetStateObject_loop m e ts = Inr m' \<Longrightarrow> sameButActions m m'"
proof (induction ts arbitrary: m)
  case Nil
  then show ?case by (simp add: sameButActions_def)
next
  case (Cons x ts)
  obtain act t where x: "x = (act, t)" by (cases x)
  from Cons.prems x obtain a tr m1 h where
    act: "act = Some a" and t: "t = Some tr" and
    m1: "(if getAction m (a_name a) = None then AddActionObject m act else Inr m) = Inr m1" and
    rest: "SetStateObject_loop (m1\<lparr>maps := h\<rparr>) e ts = Inr m'"
    by (auto split: option.splits sum.splits)
  from m1 act have "sameButActions m (m1\<lparr>maps := h\<rparr>)"
    by (auto simp add: AddActionObject_def sameButActions_def split: if_splits)
  with Cons.IH [OF rest] show ?case
    by (rule sameButActions_trans [rotated])
qed

subsection \<open>What a registration writes\<close>

lemma appendStateToList_Inr:
  "appendStateToList m s = Inr m' \<Longrightarrow>
     0 \<le> s_index s \<and> nat (s_index s) < length (states m') \<and> states m' ! nat (s_index s) = Some s \<and>
     initialState m' = initialState m \<and> statesSize m' = statesSize m \<and> actions m' = actions m \<and>
     rewards m' = rewards m \<and> transitions m' = transitions m \<and> discountRate m' = discountRate m \<and>
     stateMap m' = stateMap m \<and> stateIndexMap m' = stateIndexMap m \<and> nextAddr m' = nextAddr m \<and>
     maps m' = maps m"
  by (auto simp add: appendStateToList_def Let_def andThen_eq_Inr split: if_splits)

lemma registerState_Inr:
  "registerState m s reward = Inr m' \<Longrightarrow>
     0 \<le> s_index s \<and> nat (s_index s) < length (states m') \<and> states m' ! nat (s_index s) = Some s \<and>
     stateMap m' = (stateMap m)(s_name s \<mapsto> s) \<and>
     stateIndexMap m' = (stateIndexMap m)(s_index s \<mapsto> s) \<and>
     initialState m' = initialState m \<and> actions m' = actions m \<and> nextAddr m' = nextAddr m \<and>
     maps m' = maps m"
  apply (simp add: registerState_def andThen_eq_Inr Let_def rewardsTable_Set_def rewardsTable_Remove_def)
  apply (elim exE conjE)
  apply (drule appendStateToList_Inr)
  apply (auto split: option.splits simp add: andThen_eq_Inr rewardsTable_Remove_def)
  done

text \<open>The steps of a successful \<open>SetState\<close> and of a successful \<open>SetStateObject\<close>.\<close>

lemma SetState_Inr:
  assumes "SetState m n index terminal reward ts = Inr m'"
  shows "\<exists>m1 m2 e m3.
           registerState (m\<lparr>nextAddr := Suc (nextAddr m)\<rparr>)
             (NewState (nextAddr m) n index terminal) reward = Inr m1 \<and>
           newEntry m1 = (m2, e) \<and> SetState_loop m2 e ts = Inr m3 \<and>
           m' = finishState m3 (NewState (nextAddr m) n index terminal) e \<and>
           sameButActions m1 m3"
proof -
  from assms obtain m1 m3 where
    r: "registerState (m\<lparr>nextAddr := Suc (nextAddr m)\<rparr>)
          (NewState (nextAddr m) n index terminal) reward = Inr m1" and
    l0: "SetState_loop (fst (newEntry m1)) (snd (newEntry m1)) ts = Inr m3" and
    f0: "m' = finishState m3 (NewState (nextAddr m) n index terminal) (snd (newEntry m1))"
    by (auto simp add: SetState_def Let_def andThen_eq_Inr newEntry_eq split: if_splits)
  obtain m2 e where n: "newEntry m1 = (m2, e)" by (cases "newEntry m1")
  with l0 f0 have l: "SetState_loop m2 e ts = Inr m3"
    and f: "m' = finishState m3 (NewState (nextAddr m) n index terminal) e"
    by simp_all
  from n have "sameButActions m1 m2" by (auto simp add: newEntry_eq sameButActions_def)
  with SetState_loop_frame [OF l] have "sameButActions m1 m3"
    by (rule sameButActions_trans [rotated])
  with r n l f show ?thesis by blast
qed

lemma SetStateObject_Inr:
  assumes "SetStateObject m (Some s) reward ts = Inr m'"
  shows "\<exists>m1 m2 e m3.
           registerState m s reward = Inr m1 \<and>
           newEntry m1 = (m2, e) \<and> SetStateObject_loop m2 e ts = Inr m3 \<and>
           m' = finishState m3 s e \<and> sameButActions m1 m3"
proof -
  from assms obtain m1 m3 where
    r: "registerState m s reward = Inr m1" and
    l0: "SetStateObject_loop (fst (newEntry m1)) (snd (newEntry m1)) ts = Inr m3" and
    f0: "m' = finishState m3 s (snd (newEntry m1))"
    by (auto simp add: SetStateObject_def andThen_eq_Inr newEntry_eq split: if_splits)
  obtain m2 e where n: "newEntry m1 = (m2, e)" by (cases "newEntry m1")
  with l0 f0 have l: "SetStateObject_loop m2 e ts = Inr m3" and f: "m' = finishState m3 s e"
    by simp_all
  from n have "sameButActions m1 m2" by (auto simp add: newEntry_eq sameButActions_def)
  with SetStateObject_loop_frame [OF l] have "sameButActions m1 m3"
    by (rule sameButActions_trans [rotated])
  with r n l f show ?thesis by blast
qed

text \<open>After a successful call the slot, the index and the name hold the state.\<close>

lemma SetStateObject_registers:
  assumes "SetStateObject m (Some s) reward ts = Inr m'"
  shows "nat (s_index s) < length (states m') \<and> states m' ! nat (s_index s) = Some s \<and>
         getStateByIndex m' (s_index s) = Some s \<and> getStateByName m' (s_name s) = Some s \<and>
         (\<forall>j. j \<noteq> s_index s \<longrightarrow> getStateByIndex m' j = getStateByIndex m j)"
proof -
  from SetStateObject_Inr [OF assms] obtain m1 m3 e where
    r: "registerState m s reward = Inr m1" and
    f: "m' = finishState m3 s e" and 2: "sameButActions m1 m3"
    by blast
  show ?thesis
    using registerState_Inr [OF r] 2 f
    by (auto simp add: finishState_def Let_def getStateByIndex_def getStateByName_def
        sameButActions_def)
qed

lemma SetState_registers:
  assumes "SetState m n index terminal reward ts = Inr m'"
  shows "nat index < length (states m') \<and>
         states m' ! nat index = Some (NewState (nextAddr m) n index terminal) \<and>
         getStateByIndex m' index = Some (NewState (nextAddr m) n index terminal) \<and>
         getStateByName m' n = Some (NewState (nextAddr m) n index terminal) \<and>
         initialState m' = (if index = 0 then Some (NewState (nextAddr m) n index terminal)
                            else initialState m) \<and>
         (\<forall>j. j \<noteq> index \<longrightarrow> getStateByIndex m' j = getStateByIndex m j)"
proof -
  let ?s = "NewState (nextAddr m) n index terminal"
  from SetState_Inr [OF assms] obtain m1 m3 e where
    r: "registerState (m\<lparr>nextAddr := Suc (nextAddr m)\<rparr>) ?s reward = Inr m1" and
    f: "m' = finishState m3 ?s e" and 2: "sameButActions m1 m3"
    by blast
  have s: "s_name ?s = n" "s_index ?s = index" by (simp_all add: NewState_def)
  from registerState_Inr [OF r] s
  have 1: "nat index < length (states m1)" "states m1 ! nat index = Some ?s"
    "stateMap m1 = (stateMap m)(n \<mapsto> ?s)" "stateIndexMap m1 = (stateIndexMap m)(index \<mapsto> ?s)"
    "initialState m1 = initialState m"
    by simp_all
  show ?thesis
    using 1 2 f s
    by (cases "index = 0")
      (auto simp add: finishState_def Let_def getStateByIndex_def getStateByName_def
        sameButActions_def)
qed

subsection \<open>Growth of the array\<close>

lemma appendStateToList_grow:
  assumes "statesCapacity m \<le> s_index s" and "0 < s_index s" and "s_index s * 2 \<le> maxSliceLen"
    and "length (states m) \<le> nat (s_index s * 2)"
  shows "appendStateToList m s =
           Inr (m\<lparr>statesCapacity := s_index s * 2,
                  states := (states m @ replicate (nat (s_index s * 2) - length (states m)) None)
                              [nat (s_index s) := Some s]\<rparr>)"
proof -
  have "int64 (s_index s * 2) = s_index s * 2"
    using assms by (intro int64_id) (simp_all add: maxSliceLen_def)
  moreover have "nat (s_index s) < nat (s_index s * 2)"
    using assms by simp
  ultimately show ?thesis
    using assms by (simp add: appendStateToList_def Let_def)
qed

text \<open>
  The copy loop of \<open>appendStateToList\<close> panics when the array is longer than the new
  one, whatever is registered at the index.
\<close>

lemma appendStateToList_copy_panics:
  assumes "statesCapacity m \<le> s_index s" and "0 \<le> s_index s" and "s_index s * 2 \<le> maxSliceLen"
    and "nat (s_index s * 2) < length (states m)"
  shows "appendStateToList m s = Inl (Panic IndexOutOfRange)"
proof -
  have "int64 (s_index s * 2) = s_index s * 2"
    using assms by (intro int64_id) (simp_all add: maxSliceLen_def)
  then show ?thesis
    using assms by (simp add: appendStateToList_def Let_def)
qed

lemma SetState_copy_panics:
  assumes "n \<noteq> []" and "statesCapacity m \<le> index" and "0 \<le> index"
    and "index * 2 \<le> maxSliceLen" and "nat (index * 2) < length (states m)"
  shows "SetState m n index terminal reward ts = Inl (Panic IndexOutOfRange)"
proof -
  let ?s = "NewState (nextAddr m) n index terminal"
  let ?m0 = "m\<lparr>nextAddr := Suc (nextAddr m)\<rparr>"
  have s: "s_index ?s = index" by (simp add: NewState_def)
  have a: "appendStateToList (?m0\<lparr>rewards := rw, transitions := tr\<rparr>) ?s = Inl (Panic IndexOutOfRange)"
    for rw tr
    using assms by (intro appendStateToList_copy_panics) (simp_all add: s)
  have b: "appendStateToList ?m0 ?s = Inl (Panic IndexOutOfRange)"
    using assms by (intro appendStateToList_copy_panics) (simp_all add: s)
  have "registerState ?m0 ?s reward = Inl (Panic IndexOutOfRange)"
    using a b
    by (cases "getStateByIndex ?m0 (s_index ?s)")
      (simp_all add: registerState_def rewardsTable_Remove_def)
  with assms(1,3) show ?thesis
    by (simp add: SetState_def Let_def)
qed

lemma registerState_grow:
  assumes "statesCapacity m \<le> s_index s" and "0 < s_index s" and "s_index s * 2 \<le> maxSliceLen"
    and "length (states m) \<le> nat (s_index s * 2)"
  shows "\<exists>m1. registerState m s reward = Inr m1 \<and>
           statesCapacity m1 = s_index s * 2 \<and>
           states m1 = (states m @ replicate (nat (s_index s * 2) - length (states m)) None)
                              [nat (s_index s) := Some s] \<and>
           stateMap m1 = (stateMap m)(s_name s \<mapsto> s) \<and>
           stateIndexMap m1 = (stateIndexMap m)(s_index s \<mapsto> s) \<and>
           (\<forall>i. i \<noteq> s_index s \<and>
                (\<forall>sOld. stateIndexMap m (s_index s) = Some sOld \<longrightarrow> s_index sOld \<noteq> i)
                \<longrightarrow> r_table (rewards m1) i = r_table (rewards m) i) \<and>
           (\<forall>k. stateIndexMap m (s_index s) \<noteq> k \<longrightarrow> transitions m1 k = transitions m k)"
proof (cases "stateIndexMap m (s_index s)")
  case None
  show ?thesis
    using None appendStateToList_grow [OF assms]
    by (simp add: registerState_def getStateByIndex_def rewardsTable_Set_def Let_def)
next
  case (Some sOld)
  let ?m0 = "m\<lparr>rewards := (rewards m)\<lparr>r_table := (r_table (rewards m))(s_index sOld := None),
                 r_stateMap := (r_stateMap (rewards m))(s_index sOld := None)\<rparr>,
               transitions := transitionTable_Remove (transitions m) (Some sOld)\<rparr>"
  have a: "appendStateToList ?m0 s =
           Inr (?m0\<lparr>statesCapacity := s_index s * 2,
                  states := (states ?m0 @ replicate (nat (s_index s * 2) - length (states ?m0)) None)
                              [nat (s_index s) := Some s]\<rparr>)"
    using assms by (intro appendStateToList_grow) simp_all
  show ?thesis
    using Some a
    by (auto simp add: registerState_def getStateByIndex_def rewardsTable_Set_def
        rewardsTable_Remove_def transitionTable_Remove_def Let_def)
qed

text \<open>
  What \<open>SetState\<close> at or beyond the capacity does when nothing stands in its way: a name,
  a positive index whose double \<open>make\<close> admits, an array not longer than that, and no
  \<open>nil\<close> Transition.
\<close>

lemma SetState_grows:
  assumes "n \<noteq> []" and "statesCapacity m \<le> index" and "0 < index" and "index * 2 \<le> maxSliceLen"
    and "length (states m) \<le> nat (index * 2)" and "\<forall>x \<in> set ts. snd x \<noteq> None"
  shows "\<exists>m'. SetState m n index terminal reward ts = Inr m' \<and>
      statesCapacity m' = max (statesCapacity m) (index * 2) \<and>
      length (states m') = nat (index * 2) \<and>
      (\<forall>j < length (states m). j \<noteq> nat index \<longrightarrow> states m' ! j = states m ! j) \<and>
      (\<forall>j. j \<noteq> index \<longrightarrow> getStateByIndex m' j = getStateByIndex m j) \<and>
      (\<forall>k. k \<noteq> n \<longrightarrow> getStateByName m' k = getStateByName m k) \<and>
      (\<forall>r. r \<noteq> Suc (nextAddr m) \<longrightarrow> maps m' r = maps m r) \<and>
      (indexKeyed m \<longrightarrow>
         (\<forall>j s. j \<noteq> index \<and> getStateByIndex m j = Some s \<longrightarrow>
            rewardsTable_Get (rewards m') (Some s) = rewardsTable_Get (rewards m) (Some s) \<and>
            transitionTable_Get (transitions m') (Some s) = transitionTable_Get (transitions m) (Some s)))"
proof -
  define s where "s = NewState (nextAddr m) n index terminal"
  define m0 where "m0 = m\<lparr>nextAddr := Suc (nextAddr m)\<rparr>"
  have s: "s_index s = index" "s_name s = n" by (simp_all add: s_def NewState_def)
  have pre: "statesCapacity m0 \<le> s_index s" "0 < s_index s" "s_index s * 2 \<le> maxSliceLen"
    "length (states m0) \<le> nat (s_index s * 2)"
    using assms by (simp_all add: s m0_def)
  from registerState_grow [OF pre, of reward] obtain m1 where
    r: "registerState m0 s reward = Inr m1" and
    c1: "statesCapacity m1 = index * 2" and
    st1: "states m1 = (states m @ replicate (nat (index * 2) - length (states m)) None)
                         [nat index := Some s]" and
    sm1: "stateMap m1 = (stateMap m)(n \<mapsto> s)" and
    si1: "stateIndexMap m1 = (stateIndexMap m)(index \<mapsto> s)" and
    rw1: "\<forall>i. i \<noteq> index \<and> (\<forall>sOld. stateIndexMap m index = Some sOld \<longrightarrow> s_index sOld \<noteq> i)
                \<longrightarrow> r_table (rewards m1) i = r_table (rewards m) i" and
    tr1: "\<forall>k. stateIndexMap m index \<noteq> k \<longrightarrow> transitions m1 k = transitions m k"
    by (auto simp add: s m0_def)
  from registerState_Inr [OF r] have a1: "nextAddr m1 = Suc (nextAddr m)" "maps m1 = maps m"
    by (simp_all add: m0_def)
  obtain m2 e where ne: "newEntry m1 = (m2, e)" by (cases "newEntry m1")
  with a1 have e: "entry e = Some (Suc (nextAddr m))"
    and h2: "maps m2 = (maps m)(Suc (nextAddr m) := Map.empty)"
    by (auto simp add: newEntry_eq)
  from e have "entry e \<noteq> None" by simp
  from SetState_loop_succeeds [OF this assms(6)] obtain m3 where
    l: "SetState_loop m2 e ts = Inr m3" by blast
  define m' where "m' = finishState m3 s e"
  have res: "SetState m n index terminal reward ts = Inr m'"
    using assms(1,3) r ne l
    by (simp add: SetState_def Let_def s_def [symmetric] m0_def [symmetric] m'_def)
  from SetState_Inr [OF res] r ne l have f: "sameButActions m1 m3"
    by (simp add: s_def m0_def)
  have cap: "statesCapacity m' = max (statesCapacity m) (index * 2)"
    using f c1 assms(2,3) by (simp add: m'_def finishState_def Let_def sameButActions_def)
  have sts: "states m' = (states m @ replicate (nat (index * 2) - length (states m)) None)
                            [nat index := Some s]"
    using f st1 by (simp add: m'_def finishState_def Let_def sameButActions_def)
  have len: "length (states m') = nat (index * 2)"
    using sts assms(5) by simp
  have copy: "\<forall>j < length (states m). j \<noteq> nat index \<longrightarrow> states m' ! j = states m ! j"
    using sts by (simp add: nth_append)
  have byi: "\<forall>j. j \<noteq> index \<longrightarrow> getStateByIndex m' j = getStateByIndex m j"
    using f si1 by (simp add: m'_def finishState_def Let_def sameButActions_def getStateByIndex_def)
  have byn: "\<forall>k. k \<noteq> n \<longrightarrow> getStateByName m' k = getStateByName m k"
    using f sm1 by (simp add: m'_def finishState_def Let_def sameButActions_def getStateByName_def)
  have hp: "\<forall>r. r \<noteq> Suc (nextAddr m) \<longrightarrow> maps m' r = maps m r"
  proof (intro allI impI)
    fix r
    assume r: "r \<noteq> Suc (nextAddr m)"
    from SetState_loop_maps [OF l e r] have "maps m3 r = maps m2 r" .
    with h2 r show "maps m' r = maps m r"
      by (simp add: m'_def finishState_def Let_def)
  qed
  have rwm: "rewards m' = rewards m1"
    using f by (simp add: m'_def finishState_def Let_def sameButActions_def)
  have trm: "\<forall>k. k \<noteq> Some s \<longrightarrow> transitions m' k = transitions m1 k"
    using f by (simp add: m'_def finishState_def Let_def sameButActions_def transitionTable_Set_def)
  have frame: "indexKeyed m \<longrightarrow>
         (\<forall>j s'. j \<noteq> index \<and> getStateByIndex m j = Some s' \<longrightarrow>
            rewardsTable_Get (rewards m') (Some s') = rewardsTable_Get (rewards m) (Some s') \<and>
            transitionTable_Get (transitions m') (Some s') = transitionTable_Get (transitions m) (Some s'))"
  proof (intro impI allI, elim conjE)
    fix j s'
    assume k: "indexKeyed m" and j: "j \<noteq> index" and g: "getStateByIndex m j = Some s'"
    from k g have i': "s_index s' = j" by (simp add: indexKeyed_def getStateByIndex_def)
    have old: "\<forall>sOld. stateIndexMap m index = Some sOld \<longrightarrow> s_index sOld = index"
      using k by (simp add: indexKeyed_def)
    have "r_table (rewards m1) j = r_table (rewards m) j"
      using rw1 j old by auto
    then have 1: "rewardsTable_Get (rewards m') (Some s') = rewardsTable_Get (rewards m) (Some s')"
      by (simp add: rewardsTable_Get_def rwm i')
    have ne: "Some s' \<noteq> Some s" using i' j s by auto
    have ne2: "stateIndexMap m index \<noteq> Some s'" using old i' j by auto
    have 2: "transitionTable_Get (transitions m') (Some s')
               = transitionTable_Get (transitions m) (Some s')"
      using trm tr1 ne ne2 by (simp add: transitionTable_Get_def)
    from 1 2
    show "rewardsTable_Get (rewards m') (Some s') = rewardsTable_Get (rewards m) (Some s') \<and>
        transitionTable_Get (transitions m') (Some s') = transitionTable_Get (transitions m) (Some s')" ..
  qed
  from res cap len copy byi byn hp frame show ?thesis by blast
qed

subsection \<open>States are registered under their own index\<close>

lemma NewMDP_actions_frame:
  "stateIndexMap (NewMDP_actions m ns) = stateIndexMap m \<and>
   states (NewMDP_actions m ns) = states m \<and>
   statesCapacity (NewMDP_actions m ns) = statesCapacity m"
  by (induction ns arbitrary: m) simp_all

lemma NewMDP_entry_frame:
  "NewMDP_entry m b e ts = Inr m' \<Longrightarrow>
     stateIndexMap m' = stateIndexMap m \<and> states m' = states m \<and>
     statesCapacity m' = statesCapacity m \<and> transitions m' = transitions m \<and>
     nextAddr m' = nextAddr m"
proof (induction ts arbitrary: m)
  case Nil
  then show ?case by simp
next
  case (Cons x ts)
  obtain n t where x: "x = (n, t)" by (cases x)
  from Cons.prems x obtain h where "NewMDP_entry (m\<lparr>maps := h\<rparr>) b e ts = Inr m'"
    by (auto split: if_splits option.splits sum.splits)
  from Cons.IH [OF this] show ?case by simp
qed

text \<open>One step of the loop over the state names, for a name that is not the initial one.\<close>

lemma NewMDP_states_Cons:
  assumes "NewMDP_states m ini terminals rw tr i (n # ns) = Inr m'" and "ini \<noteq> n"
  shows "\<exists>m1. NewMDP_states m1 ini terminals rw tr (i + 1) ns = Inr m' \<and>
           stateIndexMap m1 = (stateIndexMap m)(i \<mapsto> NewState (nextAddr m) n i (n \<in> set terminals)) \<and>
           states m1 = states m @ [Some (NewState (nextAddr m) n i (n \<in> set terminals))] \<and>
           statesCapacity m1 = statesCapacity m"
proof -
  let ?s = "NewState (nextAddr m) n i (n \<in> set terminals)"
  let ?m1 = "m\<lparr>nextAddr := Suc (nextAddr m), states := states m @ [Some ?s],
               stateMap := (stateMap m)(n \<mapsto> ?s), stateIndexMap := (stateIndexMap m)(i \<mapsto> ?s)\<rparr>"
  from assms obtain rw' m3 where
    e: "NewMDP_entry (fst (newEntry (?m1\<lparr>rewards := rw'\<rparr>))) (n \<in> set terminals)
          (snd (newEntry (?m1\<lparr>rewards := rw'\<rparr>)))
          (case tr n of None \<Rightarrow> [] | Some ts \<Rightarrow> ts) = Inr m3" and
    r: "NewMDP_states
          (m3\<lparr>transitions := transitionTable_Set (transitions m3) (Some ?s)
                 (Some (snd (newEntry (?m1\<lparr>rewards := rw'\<rparr>))))\<rparr>)
          ini terminals rw tr (i + 1) ns = Inr m'"
    by (auto simp add: Let_def newEntry_eq split: sum.splits)
  from NewMDP_entry_frame [OF e]
  have "stateIndexMap m3 = (stateIndexMap m)(i \<mapsto> ?s)" "states m3 = states m @ [Some ?s]"
    "statesCapacity m3 = statesCapacity m"
    by (simp_all add: newEntry_eq)
  with r show ?thesis by (intro exI conjI) (assumption, simp_all)
qed

lemma NewMDP_states_skip:
  "NewMDP_states m n terminals rw tr i (n # ns) =
     NewMDP_states (m\<lparr>nextAddr := Suc (nextAddr m)\<rparr>) n terminals rw tr i ns"
  by (simp add: Let_def)

lemma NewMDP_states_indexKeyed:
  "NewMDP_states m ini terminals rw tr i ns = Inr m' \<Longrightarrow> indexKeyed m \<Longrightarrow> indexKeyed m'"
proof (induction ns arbitrary: m i)
  case Nil
  then show ?case by simp
next
  case (Cons n ns)
  show ?case
  proof (cases "ini = n")
    case True
    with Cons.prems(1)
    have "NewMDP_states (m\<lparr>nextAddr := Suc (nextAddr m)\<rparr>) ini terminals rw tr i ns = Inr m'"
      by (simp add: NewMDP_states_skip)
    moreover from Cons.prems(2) have "indexKeyed (m\<lparr>nextAddr := Suc (nextAddr m)\<rparr>)"
      by (simp add: indexKeyed_def)
    ultimately show ?thesis by (rule Cons.IH)
  next
    case False
    from NewMDP_states_Cons [OF Cons.prems(1) False] obtain m1 where
      1: "NewMDP_states m1 ini terminals rw tr (i + 1) ns = Inr m'" and
      2: "stateIndexMap m1 = (stateIndexMap m)(i \<mapsto> NewState (nextAddr m) n i (n \<in> set terminals))"
      by blast
    from 2 Cons.prems(2) have "indexKeyed m1"
      by (simp add: indexKeyed_def NewState_def)
    with 1 show ?thesis by (rule Cons.IH)
  qed
qed

lemma NewMDP_indexKeyed:
  assumes "NewMDP h ini ns terminals acts rw tr g = Inr m"
  shows "indexKeyed m"
proof -
  from assms obtain m2 m3 where
    1: "NewMDP_states m2 ini terminals rw tr 1 ns = Inr m3" and
    2: "indexKeyed m2" and 3: "m = m3\<lparr>discountRate := g\<rparr>"
    by (auto simp add: NewMDP_def NewRewards_def Let_def andThen_eq_Inr indexKeyed_def
        NewMDP_actions_frame NewState_def split: if_splits)
  from NewMDP_states_indexKeyed [OF 1 2] 3 show ?thesis
    by (simp add: indexKeyed_def)
qed

lemma finishState_stateIndexMap: "stateIndexMap (finishState m s e) = stateIndexMap m"
  by (simp add: finishState_def Let_def)

lemma SetState_indexKeyed:
  assumes "SetState m n index terminal reward ts = Inr m'" and "indexKeyed m"
  shows "indexKeyed m'"
proof -
  let ?s = "NewState (nextAddr m) n index terminal"
  from SetState_Inr [OF assms(1)] obtain m1 m3 e where
    r: "registerState (m\<lparr>nextAddr := Suc (nextAddr m)\<rparr>) ?s reward = Inr m1" and
    f: "m' = finishState m3 ?s e" and 2: "sameButActions m1 m3"
    by blast
  from registerState_Inr [OF r]
  have "stateIndexMap m1 = (stateIndexMap m)(s_index ?s \<mapsto> ?s)" by simp
  moreover from 2 have "stateIndexMap m3 = stateIndexMap m1"
    by (simp add: sameButActions_def)
  moreover from f have "stateIndexMap m' = stateIndexMap m3"
    by (simp add: finishState_stateIndexMap)
  ultimately show ?thesis using assms(2) by (simp add: indexKeyed_def)
qed

lemma SetStateObject_indexKeyed:
  assumes "SetStateObject m st reward ts = Inr m'" and "indexKeyed m"
  shows "indexKeyed m'"
proof -
  from assms(1) obtain s where st: "st = Some s"
    by (cases st) (simp_all add: SetStateObject_def)
  from SetStateObject_Inr [OF assms(1) [unfolded st]] obtain m1 m3 e where
    r: "registerState m s reward = Inr m1" and
    f: "m' = finishState m3 s e" and 2: "sameButActions m1 m3"
    by blast
  from registerState_Inr [OF r]
  have "stateIndexMap m1 = (stateIndexMap m)(s_index s \<mapsto> s)" by simp
  moreover from 2 have "stateIndexMap m3 = stateIndexMap m1"
    by (simp add: sameButActions_def)
  moreover from f have "stateIndexMap m' = stateIndexMap m3"
    by (simp add: finishState_stateIndexMap)
  ultimately show ?thesis using assms(2) by (simp add: indexKeyed_def)
qed

lemma RemoveStateByIndex_indexKeyed:
  "RemoveStateByIndex m i = Inr m' \<Longrightarrow> indexKeyed m \<Longrightarrow> indexKeyed m'"
  by (auto simp add: RemoveStateByIndex_def andThen_eq_Inr indexKeyed_def rewardsTable_Remove_def
      split: option.splits if_splits)

subsection \<open>The scan for the first empty slot\<close>

lemma firstEmptyIndex_props:
  "0 \<le> firstEmptyIndex xs \<and> nat (firstEmptyIndex xs) \<le> length xs \<and>
   (\<forall>j < nat (firstEmptyIndex xs). xs ! j \<noteq> None) \<and>
   (nat (firstEmptyIndex xs) < length xs \<longrightarrow> xs ! nat (firstEmptyIndex xs) = None)"
proof (induction xs rule: firstEmptyIndex.induct)
  case 1
  then show ?case by simp
next
  case (2 rest)
  then show ?case by simp
next
  case (3 s rest)
  have n: "nat (firstEmptyIndex rest + 1) = Suc (nat (firstEmptyIndex rest))"
    using 3 by (simp add: nat_add_distrib)
  show ?case
    using 3 by (auto simp add: n less_Suc_eq_0_disj)
qed

lemma firstEmptyIndex_zero: "0 < length xs \<Longrightarrow> xs ! 0 = None \<Longrightarrow> firstEmptyIndex xs = 0"
  by (cases xs rule: firstEmptyIndex.cases) simp_all

text \<open>\<open>AddState\<close> does register the new state at the first empty slot of the array.\<close>

lemma AddState_first_empty:
  assumes "AddState m n terminal reward ts = Inr m'"
  shows "(\<forall>j < nat (firstEmptyIndex (states m)). states m ! j \<noteq> None) \<and>
         (nat (firstEmptyIndex (states m)) < length (states m) \<longrightarrow>
            states m ! nat (firstEmptyIndex (states m)) = None) \<and>
         states m' ! nat (firstEmptyIndex (states m)) =
           Some (NewState (nextAddr m) n (firstEmptyIndex (states m)) terminal)"
proof -
  from assms have "SetState m n (firstEmptyIndex (states m)) terminal reward ts = Inr m'"
    by (simp add: AddState_def)
  from SetState_registers [OF this] firstEmptyIndex_props [of "states m"]
  show ?thesis by simp
qed

subsection \<open>The loops of RemoveAction and of NewMDP\<close>

text \<open>One element of the array without an entry in the table, and the loop panics.\<close>

lemma RemoveAction_loop_panics:
  "\<exists>st \<in> set sts. transitionTable_Get t st = None \<Longrightarrow>
     RemoveAction_loop h t a sts = Inl (Panic NilDereference)"
proof (induction sts arbitrary: h)
  case Nil
  then show ?case by simp
next
  case (Cons st sts)
  show ?case
  proof (cases "transitionTable_Get t st")
    case None
    then show ?thesis by simp
  next
    case (Some e)
    with Cons.prems have "\<exists>x \<in> set sts. transitionTable_Get t x = None" by auto
    from Cons.IH [OF this] Some show ?thesis by simp
  qed
qed

lemma RemoveAction_panics:
  "getAction m n = Some a \<Longrightarrow> \<exists>st \<in> set (states m). transitionTable_Get (transitions m) st = None \<Longrightarrow>
     RemoveAction m n = Inl (Panic NilDereference)"
  by (simp add: RemoveAction_def Let_def RemoveAction_loop_panics)

text \<open>
  When every element of the array has an entry, the loop deletes the action from the
  map of each and changes no other key of any map.
\<close>

lemma RemoveAction_loop_Inr:
  "RemoveAction_loop h t a sts = Inr h' \<Longrightarrow>
     (\<forall>r. h' r = h r \<or> h' r = (h r)(a := None)) \<and>
     (\<forall>st \<in> set sts. \<exists>e. transitionTable_Get t st = Some e \<and>
                          transitionTableEntry_Get h' e a = None)"
proof (induction sts arbitrary: h)
  case Nil
  then show ?case by simp
next
  case (Cons st sts)
  from Cons.prems obtain e where e: "transitionTable_Get t st = Some e"
    and rest: "RemoveAction_loop (transitionTableEntry_Remove h e a) t a sts = Inr h'"
    by (auto split: option.splits)
  let ?h1 = "transitionTableEntry_Remove h e a"
  note ih = Cons.IH [OF rest]
  from ih have 1: "\<forall>r. h' r = ?h1 r \<or> h' r = (?h1 r)(a := None)"
    by (rule conjunct1)
  from ih have 2: "\<forall>st \<in> set sts. \<exists>e. transitionTable_Get t st = Some e \<and>
                             transitionTableEntry_Get h' e a = None"
    by (rule conjunct2)
  have 3: "?h1 r = h r \<or> ?h1 r = (h r)(a := None)" for r
    by (simp add: transitionTableEntry_Remove_def split: option.splits)
  have 4: "h' r = h r \<or> h' r = (h r)(a := None)" for r
    using 1 [rule_format, of r] 3 [of r] by auto
  have 5: "transitionTableEntry_Get h' e a = None"
  proof (cases "entry e")
    case None
    then show ?thesis by (simp add: transitionTableEntry_Get_def)
  next
    case (Some x)
    then have "?h1 x a = None" by (simp add: transitionTableEntry_Remove_def)
    with 1 [rule_format, of x] have "h' x a = None" by auto
    with Some show ?thesis by (simp add: transitionTableEntry_Get_def)
  qed
  from 4 have A: "\<forall>r. h' r = h r \<or> h' r = (h r)(a := None)" by blast
  from 2 5 e have B: "\<forall>x \<in> set (st # sts). \<exists>e. transitionTable_Get t x = Some e \<and>
                             transitionTableEntry_Get h' e a = None"
    by simp
  from A B show ?case by (rule conjI)
qed

lemma RemoveAction_Inr:
  assumes "RemoveAction m n = Inr m'"
  shows "\<exists>a. getAction m n = Some a \<and> getAction m' n = None \<and>
           transitions m' = transitions m \<and>
           (\<forall>st \<in> set (states m). \<exists>e. transitionTable_Get (transitions m) st = Some e \<and>
              transitionTableEntry_Get (maps m') e (Some a) = None)"
proof -
  from assms obtain a h' where a: "getAction m n = Some a"
    and l: "RemoveAction_loop (maps m) (transitions m) (Some a) (states m) = Inr h'"
    and m': "m' = m\<lparr>actions := (actions m)(n := None), maps := h'\<rparr>"
    by (auto simp add: RemoveAction_def Let_def andThen_eq_Inr split: option.splits)
  from RemoveAction_loop_Inr [OF l] a m' show ?thesis
    by (simp add: getAction_def)
qed

lemma RemoveAction_not_registered:
  "getAction m n = None \<Longrightarrow> RemoveAction m n = Inl (ActionNotFound n)"
  by (simp add: RemoveAction_def)

text \<open>
  The test of the inner loop of \<open>NewMDP\<close> never reads the registry: for a state that is
  not terminal the first transition is refused, whatever its action.
\<close>

lemma NewMDP_entry_not_terminal:
  "NewMDP_entry m False e ts =
     (case ts of [] \<Rightarrow> Inr m | (n, t) # rest \<Rightarrow> Inl (ActionNotInMDP n))"
  by (cases ts) auto

text \<open>A name or an index that resolves to no state is a call of \<open>Index()\<close> on \<open>nil\<close>.\<close>

lemma R_unknown:
  "getStateByName m n = None \<Longrightarrow> R m n = Inl (Panic NilDereference)"
  by (simp add: R_def rewardsTable_Get_def)

lemma RByIndex_unknown:
  "getStateByIndex m i = None \<Longrightarrow> RByIndex m i = Inl (Panic NilDereference)"
  by (simp add: RByIndex_def rewardsTable_Get_def)

subsection \<open>Update\<close>

text \<open>
  On an entry over a map, \<open>Update\<close> writes the Transition for the action into that map;
  the other keys of the map and the other maps are as they were, and so is the table.
  Whatever shares the map sees the write.
\<close>

lemma Update_writes:
  assumes "transitionTable_Get t st = Some e" and "entry e = Some r"
  shows "\<exists>h'. transitionTable_Update h t st a p nxt = Inr h' \<and>
           transitionTableEntry_Get h' e a = Some (NewTransition p nxt) \<and>
           (\<forall>b. b \<noteq> a \<longrightarrow> transitionTableEntry_Get h' e b = transitionTableEntry_Get h e b) \<and>
           (\<forall>r'. r' \<noteq> r \<longrightarrow> h' r' = h r')"
  using assms
  by (auto simp add: transitionTable_Get_def transitionTable_Update_def
      transitionTableEntry_Get_def transitionTableEntry_Set_def split: option.splits)

lemma Update_no_entry:
  "transitionTable_Get t st = None \<Longrightarrow>
     transitionTable_Update h t st a p nxt = Inl (Panic NilDereference)"
  by (simp add: transitionTable_Get_def transitionTable_Update_def)

lemma Update_nil_map:
  "transitionTable_Get t st = Some e \<Longrightarrow> entry e = None \<Longrightarrow>
     transitionTable_Update h t st a p nxt = Inl (Panic NilMapWrite)"
  by (simp add: transitionTable_Get_def transitionTable_Update_def transitionTableEntry_Set_def)

lemma SetTransition_no_entry:
  "transitionTable_Get (transitions m) (getStateByName m startState) = None \<Longrightarrow>
     SetTransition m startState endState n p = Inl (Panic NilDereference)"
  by (simp add: SetTransition_def Update_no_entry)

lemma SetTransition_Update:
  "transitionTable_Update (maps m) (transitions m) (getStateByName m startState) (getAction m n) p
       (getStateByName m endState) = Inr h \<Longrightarrow>
     SetTransition m startState endState n p = Inr (m\<lparr>maps := h\<rparr>)"
  by (simp add: SetTransition_def)

subsection \<open>NewMDP without transitions\<close>

text \<open>
  Without transitions the loop over the state names succeeds: it appends one element
  for every name other than the initial one and leaves the capacity as it is.
\<close>

lemma NewMDP_states_plain:
  "\<exists>m'. NewMDP_states m ini terminals rw Map.empty i ns = Inr m' \<and>
        length (states m') = length (states m) + length (filter (\<lambda>n. n \<noteq> ini) ns) \<and>
        statesCapacity m' = statesCapacity m \<and>
        discountRate m' = discountRate m"
proof (induction ns arbitrary: m i)
  case Nil
  then show ?case by simp
next
  case (Cons n ns)
  show ?case
  proof (cases "ini = n")
    case True
    with Cons.IH [of "m\<lparr>nextAddr := Suc (nextAddr m)\<rparr>" i] show ?thesis
      by (simp add: NewMDP_states_skip)
  next
    case False
    let ?s = "NewState (nextAddr m) n i (n \<in> set terminals)"
    let ?m1 = "m\<lparr>states := states m @ [Some ?s],
                 stateMap := (stateMap m)(n \<mapsto> ?s), stateIndexMap := (stateIndexMap m)(i \<mapsto> ?s),
                 rewards := (rewards m)
                   \<lparr>r_table := (r_table (rewards m))(i \<mapsto> case rw n of None \<Rightarrow> 0 | Some r \<Rightarrow> r),
                    r_stateMap := (r_stateMap (rewards m))(i \<mapsto> ?s)\<rparr>,
                 maps := (maps m)(Suc (nextAddr m) := Map.empty),
                 nextAddr := Suc (Suc (nextAddr m)),
                 transitions := transitionTable_Set (transitions m) (Some ?s)
                                  (Some \<lparr>entry = Some (Suc (nextAddr m))\<rparr>)\<rparr>"
    have step: "NewMDP_states m ini terminals rw Map.empty i (n # ns) =
                  NewMDP_states ?m1 ini terminals rw Map.empty (i + 1) ns"
      using False
      by (simp add: Let_def newEntry_eq rewardsTable_Set_def NewState_def)
    from Cons.IH [of ?m1 "i + 1"] False show ?thesis
      by (simp only: step) simp
  qed
qed

section \<open>The claims\<close>

subsection \<open>C10: the rewards table is keyed by the index alone\<close>

text \<open>
  C10. For all states \<open>s1\<close> and \<open>s2\<close> with the same index (which makes them \<open>Equals\<close>),
  whatever their names, terminal flags and addresses, and any reward \<open>r\<close>: \<open>Get(s2)\<close>
  after \<open>Set(s1, r)\<close> returns \<open>r\<close>, and \<open>Remove(s2)\<close> deletes the entry written through
  \<open>s1\<close>, the reward and the state recorded for rendering, so that \<open>Get(s1)\<close> reads the
  zero value afterwards.
\<close>

theorem rewardsTable_keyed_by_index:
  "s_index s1 = s_index s2 \<Longrightarrow>
     state_Equals s1 (Some s2) = Inr True \<and>
     (\<exists>t1. rewardsTable_Set t (Some s1) r = Inr t1 \<and>
           rewardsTable_Get t1 (Some s2) = Inr r \<and>
           (\<exists>t2. rewardsTable_Remove t1 (Some s2) = Inr t2 \<and>
                 r_table t2 (s_index s1) = None \<and>
                 r_stateMap t2 (s_index s1) = None \<and>
                 rewardsTable_Get t2 (Some s1) = Inr 0))"
  by (simp add: state_Equals_def rewardsTable_Set_def rewardsTable_Get_def rewardsTable_Remove_def)

theorem rewardsTable_keyed_by_index_witness:
  "s_index (NewState 0 ''a'' 3 False) = s_index (NewState 1 ''b'' 3 True) \<and>
   s_name (NewState 0 ''a'' 3 False) \<noteq> s_name (NewState 1 ''b'' 3 True) \<and>
   s_terminal (NewState 0 ''a'' 3 False) \<noteq> s_terminal (NewState 1 ''b'' 3 True) \<and>
   state_Equals (NewState 0 ''a'' 3 False) (Some (NewState 1 ''b'' 3 True)) = Inr True \<and>
   (\<exists>t1. rewardsTable_Set \<lparr>r_table = Map.empty, r_stateMap = Map.empty\<rparr>
            (Some (NewState 0 ''a'' 3 False)) 5 = Inr t1 \<and>
         rewardsTable_Get t1 (Some (NewState 1 ''b'' 3 True)) = Inr 5 \<and>
         (\<exists>t2. rewardsTable_Remove t1 (Some (NewState 1 ''b'' 3 True)) = Inr t2 \<and>
               r_table t2 3 = None \<and> r_stateMap t2 3 = None \<and>
               rewardsTable_Get t2 (Some (NewState 0 ''a'' 3 False)) = Inr 0))"
  using rewardsTable_keyed_by_index
    [of "NewState 0 ''a'' 3 False" "NewState 1 ''b'' 3 True"
        "\<lparr>r_table = Map.empty, r_stateMap = Map.empty\<rparr>" 5]
  by (auto simp add: NewState_def)

subsection \<open>C6: Update on an entry over a nil map\<close>

text \<open>
  C6 at one input. \<open>NewTransitionTable\<close> is given a table whose inner map for the state
  \<open>s\<close> is \<open>nil\<close>. The state then has an entry, which \<open>Get\<close> returns, and
  \<open>Update(s, a, 0.5, s)\<close> does not insert the Transition: the write goes to the \<open>nil\<close>
  map of the entry and panics.
\<close>

theorem Update_panics_on_nil_map:
  "transitionTable_Get
     (NewTransitionTable (\<lambda>r. Map.empty) 0 (Some [(Some (NewState 0 ''s'' 0 False), None)]))
     (Some (NewState 0 ''s'' 0 False)) = Some \<lparr>entry = None\<rparr> \<and>
   transitionTable_Update (\<lambda>r. Map.empty)
     (NewTransitionTable (\<lambda>r. Map.empty) 0 (Some [(Some (NewState 0 ''s'' 0 False), None)]))
     (Some (NewState 0 ''s'' 0 False)) (Some (NewAction 1 ''a'')) (1 / 2)
     (Some (NewState 0 ''s'' 0 False)) = Inl (Panic NilMapWrite)"
  by (simp add: NewTransitionTable_def NewTransitionTableEntry_def transitionTable_Set_def
      transitionTable_Get_def transitionTable_Update_def transitionTableEntry_Set_def)

subsection \<open>C9: SetInitialState registers a state that is not terminal\<close>

text \<open>
  C9. \<open>SetInitialState(name, reward, transitions)\<close> is \<open>SetState\<close> at index 0 with the
  terminal flag \<open>false\<close>: whenever it succeeds, whatever its arguments, slot 0 of the
  array, the index map at 0, the name map at \<open>name\<close> and the initial-state field all hold
  one new state, which has that name, index 0 and is not terminal.
\<close>

theorem SetInitialState_not_terminal:
  "SetInitialState m n reward ts = Inr m' \<Longrightarrow>
     0 < length (states m') \<and>
     (\<exists>s. states m' ! 0 = Some s \<and> getStateByIndex m' 0 = Some s \<and>
          getStateByName m' n = Some s \<and> initialState m' = Some s \<and>
          s_name s = n \<and> s_index s = 0 \<and> \<not> s_terminal s)"
proof -
  assume "SetInitialState m n reward ts = Inr m'"
  then have a: "SetState m n 0 False reward ts = Inr m'"
    by (simp add: SetInitialState_def)
  have s: "s_name (NewState (nextAddr m) n 0 False) = n"
    "s_index (NewState (nextAddr m) n 0 False) = 0"
    "\<not> s_terminal (NewState (nextAddr m) n 0 False)"
    by (simp_all add: NewState_def)
  from SetState_registers [OF a] s show ?thesis
    by auto
qed

theorem SetInitialState_not_terminal_witness:
  "\<exists>m0 m'. NewDefaultMDP 0 = Inr m0 \<and>
     SetInitialState m0 ''start'' 1 [(''go'', Some (NewTransition 1 None))] = Inr m' \<and>
     (\<exists>s. states m' ! 0 = Some s \<and> getStateByIndex m' 0 = Some s \<and>
          getStateByName m' ''start'' = Some s \<and> initialState m' = Some s \<and> \<not> s_terminal s)"
proof -
  obtain m0 where m0: "NewDefaultMDP 0 = Inr m0" and "statesCapacity m0 = 128"
    and "states m0 = replicate 128 None" and "stateIndexMap m0 = Map.empty"
    and "actions m0 = Map.empty"
    by (simp add: NewDefaultMDP_eq)
  then have "\<exists>m'. SetInitialState m0 ''start'' 1 [(''go'', Some (NewTransition 1 None))] = Inr m'"
    by (simp add: SetInitialState_def SetState_unfold)
  then obtain m' where
    s: "SetInitialState m0 ''start'' 1 [(''go'', Some (NewTransition 1 None))] = Inr m'" ..
  from SetInitialState_not_terminal [OF s] m0 s show ?thesis by blast
qed

subsection \<open>C7: SetState beyond the capacity panics in the copy loop\<close>

text \<open>
  C7 at one input. \<open>NewMDP\<close> with the 129 state names \<open>s\<close>, \<open>ss\<close>, \<open>sss\<close>, \<dots> appends
  129 states to the 128 \<open>nil\<close> slots: the array has 257 elements and the capacity is
  still 128. \<open>SetState("x", 128, \<dots>)\<close> is at the capacity, makes the new array of 256
  elements, and the loop that copies the old array panics at element 256. On the
  default aggregate, whose array has the 128 elements of its capacity, the same call
  succeeds and the capacity becomes 256.
\<close>

theorem SetState_panics_in_copy_loop:
  "(\<exists>m. NewMDP 0 [] (map (\<lambda>k. replicate k CHR ''s'') [1..<130]) [] [] Map.empty Map.empty 1 = Inr m \<and>
        statesCapacity m = 128 \<and> length (states m) = 257 \<and>
        SetState m ''x'' 128 False 0 [] = Inl (Panic IndexOutOfRange)) \<and>
   (\<exists>m0 m1. NewDefaultMDP 0 = Inr m0 \<and> SetState m0 ''x'' 128 False 0 [] = Inr m1 \<and>
        statesCapacity m1 = 256 \<and> length (states m1) = 256)"
proof -
  let ?names = "map (\<lambda>k. replicate k CHR ''s'') [1..<130]"
  let ?m2 = "\<lparr>initialState = None, states = replicate 128 None, statesCapacity = 128,
          statesSize = 0, actions = Map.empty,
          rewards = \<lparr>r_table = Map.empty, r_stateMap = Map.empty\<rparr>,
          transitions = Map.empty, discountRate = 0, stateMap = Map.empty,
          stateIndexMap = Map.empty, nextAddr = 0, maps = (\<lambda>r. Map.empty)\<rparr>"
  from NewMDP_states_plain [of ?m2 "[]" "[]" Map.empty 1 ?names] obtain m3 where
    3: "NewMDP_states ?m2 [] [] Map.empty Map.empty 1 ?names = Inr m3" and
    l: "length (states m3) = length (states ?m2) + length (filter (\<lambda>n. n \<noteq> []) ?names)" and
    c: "statesCapacity m3 = statesCapacity ?m2"
    by blast
  have "filter (\<lambda>n. n \<noteq> []) ?names = ?names"
    by (simp add: filter_id_conv)
  with l have l': "length (states m3) = 257" by simp
  let ?m = "m3\<lparr>discountRate := 1\<rparr>"
  have n: "NewMDP 0 [] ?names [] [] Map.empty Map.empty 1 = Inr ?m"
    using 3 by (simp add: NewMDP_unfold)
  have p: "SetState ?m ''x'' 128 False 0 [] = Inl (Panic IndexOutOfRange)"
    using c l' by (intro SetState_copy_panics) (simp_all add: maxSliceLen_def)
  have d: "\<exists>m0 m1. NewDefaultMDP 0 = Inr m0 \<and> SetState m0 ''x'' 128 False 0 [] = Inr m1 \<and>
        statesCapacity m1 = 256 \<and> length (states m1) = 256"
    by (simp add: NewDefaultMDP_eq SetState_unfold)
  from n p c l' d show ?thesis by simp
qed

subsection \<open>C1: the array and the two maps disagree\<close>

text \<open>
  C1 at two inputs. \<open>NewMDP\<close> with the initial state \<open>s0\<close> appends it behind the 128
  \<open>nil\<close> slots: slot 0 is \<open>nil\<close> while index 0 and the name resolve to the state, and
  slot 128 holds the state while index 128 resolves to nothing. \<open>RemoveStateByIndex(1)\<close>
  clears slot 1 and leaves both maps as they were: index 1 and the name still resolve
  to the removed state.
\<close>

theorem index_name_agreement_broken:
  "(\<exists>m. NewMDP 0 ''s0'' [] [] [] Map.empty Map.empty 1 = Inr m \<and>
        states m ! 0 = None \<and>
        getStateByIndex m 0 = Some (NewState 0 ''s0'' 0 False) \<and>
        getStateByName m ''s0'' = Some (NewState 0 ''s0'' 0 False) \<and>
        states m ! 128 = Some (NewState 0 ''s0'' 0 False) \<and>
        getStateByIndex m 128 = None) \<and>
   (\<exists>m0 m1 m2. NewDefaultMDP 0 = Inr m0 \<and>
        SetState m0 ''a'' 1 False 0 [] = Inr m1 \<and>
        RemoveStateByIndex m1 1 = Inr m2 \<and>
        states m2 ! 1 = None \<and>
        getStateByIndex m2 1 = Some (NewState 0 ''a'' 1 False) \<and>
        getStateByName m2 ''a'' = Some (NewState 0 ''a'' 1 False))"
  by (simp add: NewDefaultMDP_eq NewMDP_unfold SetState_unfold Remove_unfold getStateByName_def
      nth_append)

subsection \<open>C2: a removal succeeds twice\<close>

text \<open>
  C2 at one input. After \<open>SetState("a", 1, \<dots>)\<close> on the default aggregate,
  \<open>RemoveStateByIndex(1)\<close> succeeds, and the next \<open>RemoveStateByIndex(1)\<close> succeeds again:
  the index map still holds the state, so no \<open>NotFound\<close> is returned.
\<close>

theorem RemoveStateByIndex_succeeds_twice:
  "\<exists>m0 m1 m2 m3. NewDefaultMDP 0 = Inr m0 \<and>
     SetState m0 ''a'' 1 False 0 [] = Inr m1 \<and>
     states m1 ! 1 = Some (NewState 0 ''a'' 1 False) \<and>
     RemoveStateByIndex m1 1 = Inr m2 \<and>
     RemoveStateByIndex m2 1 = Inr m3"
  by (simp add: NewDefaultMDP_eq SetState_unfold Remove_unfold)

subsection \<open>C3: RemoveAction panics on an empty slot\<close>

text \<open>
  C3 at one input. On the default aggregate with the one action \<open>a\<close> registered,
  \<open>RemoveAction("a")\<close> does not succeed: its loop reaches the \<open>nil\<close> slot 0 of the array,
  the table has no entry for it, and \<open>Remove\<close> is called on \<open>nil\<close>.
\<close>

theorem RemoveAction_panics_on_empty_slot:
  "\<exists>m0 m1. NewDefaultMDP 0 = Inr m0 \<and> AddAction m0 ''a'' = Inr m1 \<and>
     getAction m1 ''a'' = Some (NewAction 0 ''a'') \<and>
     RemoveAction m1 ''a'' = Inl (Panic NilDereference)"
  by (simp add: NewDefaultMDP_eq AddAction_def getAction_def RemoveAction_panics
      transitionTable_Get_def)

subsection \<open>C4: NewMDP refuses a registered action\<close>

text \<open>
  C4 at two inputs. The state \<open>s\<close> is not terminal and its one transition is on the
  registered action \<open>a\<close>: \<open>NewMDP\<close> fails with "action with name a not in MDP". The same
  state made terminal, with a transition on the unregistered action \<open>zzz\<close>, is accepted.
\<close>

theorem NewMDP_refuses_registered_action:
  "NewMDP 0 [] [''s''] [] [''a''] Map.empty [''s'' \<mapsto> [(''a'', Some (NewTransition 1 None))]] 1
     = Inl (ActionNotInMDP ''a'') \<and>
   (\<exists>m. NewMDP 0 [] [''s''] [''s''] [''a''] Map.empty
          [''s'' \<mapsto> [(''zzz'', Some (NewTransition 1 None))]] 1 = Inr m)"
  by (simp add: NewMDP_unfold rewardsTable_Set_def)

subsection \<open>C5: R and RByIndex panic on an unknown state\<close>

text \<open>
  C5 at one input. On the default aggregate the name \<open>ghost\<close> and the index 7 resolve
  to no state, and \<open>R("ghost")\<close> and \<open>RByIndex(7)\<close> panic: \<open>rewardsTable.Get\<close> calls
  \<open>Index()\<close> on \<open>nil\<close>. Neither returns 0.
\<close>

theorem R_unknown_state_panics:
  "\<exists>m0. NewDefaultMDP 0 = Inr m0 \<and>
        getStateByName m0 ''ghost'' = None \<and> R m0 ''ghost'' = Inl (Panic NilDereference) \<and>
        getStateByIndex m0 7 = None \<and> RByIndex m0 7 = Inl (Panic NilDereference)"
  by (simp add: NewDefaultMDP_eq R_def RByIndex_def getStateByName_def getStateByIndex_def
      rewardsTable_Get_def)

subsection \<open>C8: AddStateObject does not use the index it scans for\<close>

text \<open>
  C8 at one input. On the default aggregate the first empty slot is 0.
  \<open>AddStateObject\<close> of a state with index 5 registers it at slot 5 and leaves slot 0
  empty; a second \<open>AddStateObject\<close> of another state with index 5 overwrites the first,
  and slot 0 is still empty.
\<close>

theorem AddStateObject_ignores_scan:
  "\<exists>m0 m1 m2. NewDefaultMDP 2 = Inr m0 \<and>
     firstEmptyIndex (states m0) = 0 \<and>
     AddStateObject m0 (Some (NewState 0 ''x'' 5 False)) 0 [] = Inr m1 \<and>
     states m1 ! 0 = None \<and> states m1 ! 5 = Some (NewState 0 ''x'' 5 False) \<and>
     firstEmptyIndex (states m1) = 0 \<and>
     AddStateObject m1 (Some (NewState 1 ''y'' 5 True)) 0 [] = Inr m2 \<and>
     states m2 ! 0 = None \<and> states m2 ! 5 = Some (NewState 1 ''y'' 5 True)"
  by (simp add: NewDefaultMDP_eq AddStateObject_def SetStateObject_unfold firstEmptyIndex_zero)

end
